theory Spec2Isabelle
  imports Main "HOL-Library.Word" "HOL-Library.List_Lexorder" "HOL-Library.Multiset"
begin

section \<open>Python values\<close>

text \<open>
  A Python \<open>str\<close> is a sequence of Unicode code points, so \<open>len\<close> counts code points and
  a lone surrogate (U+D800 .. U+DFFF) is a legal element. A \<open>bytes\<close> object is a sequence
  of octets. ASCII literals of the source are written through \<open>str\<close>.
\<close>

type_synonym pystr = "nat list"

type_synonym bytes = "8 word list"

definition str :: "string \<Rightarrow> pystr" where
  "str s = map of_char s"

text \<open>
  The exceptions that the handlers of \<open>app_secure.py\<close> tell apart: werkzeug's
  \<open>BadRequest\<close> with its description, \<open>sqlite3.Error\<close> (raised by the engine),
  \<open>DatabaseError\<close> (raised by \<open>get_db_connection\<close>), and everything else, which only
  the \<open>except Exception\<close> clauses catch.
\<close>

datatype exn =
    BadRequest pystr
  | Sqlite3Error
  | DatabaseError
  | TypeError
  | KeyError
  | AttributeError
  | UnicodeEncodeError
  | ValueError

text \<open>
  The value that \<open>request.get_json()\<close> hands to a handler: \<open>json.loads\<close> maps a
  JSON document to \<open>None\<close>, \<open>bool\<close>, \<open>int\<close>, \<open>float\<close>, \<open>str\<close>, \<open>list\<close>
  or \<open>dict\<close>. The handlers observe a float only through its truth value, which is all
  that \<open>JFloat\<close> records. A \<open>dict\<close> is an association list with distinct keys, in
  insertion order. The bodies of the responses are values of the same type.
\<close>

datatype json =
    JNull
  | JBool bool
  | JInt int
  | JFloat bool
  | JStr pystr
  | JArr "json list"
  | JObj "(pystr \<times> json) list"

text \<open>Truth value testing, as in \<open>if not data\<close>.\<close>

fun truthy :: "json \<Rightarrow> bool" where
  "truthy JNull = False"
| "truthy (JBool b) = b"
| "truthy (JInt i) = (i \<noteq> 0)"
| "truthy (JFloat nonzero) = nonzero"
| "truthy (JStr s) = (s \<noteq> [])"
| "truthy (JArr xs) = (xs \<noteq> [])"
| "truthy (JObj kvs) = (kvs \<noteq> [])"

text \<open>\<open>k in s\<close> on two strings: \<open>k\<close> occurs in \<open>s\<close> as a contiguous run.\<close>

fun substring :: "pystr \<Rightarrow> pystr \<Rightarrow> bool" where
  "substring k [] = (k = [])"
| "substring k (c # cs) = (take (length k) (c # cs) = k \<or> substring k cs)"

text \<open>
  \<open>field in data\<close>: key membership on a dict, element membership on a list, substring
  test on a string, \<open>TypeError\<close> on a number or a boolean.
\<close>

fun py_in :: "pystr \<Rightarrow> json \<Rightarrow> exn + bool" where
  "py_in k (JObj kvs) = Inr (k \<in> set (map fst kvs))"
| "py_in k (JArr xs) = Inr (JStr k \<in> set xs)"
| "py_in k (JStr s) = Inr (substring k s)"
| "py_in k JNull = Inl TypeError"
| "py_in k (JBool b) = Inl TypeError"
| "py_in k (JInt i) = Inl TypeError"
| "py_in k (JFloat nonzero) = Inl TypeError"

text \<open>
  \<open>data[field]\<close> with a string as the subscript: the value under the key on a dict
  (\<open>KeyError\<close> when absent), \<open>TypeError\<close> on everything else.
\<close>

fun py_getitem :: "json \<Rightarrow> pystr \<Rightarrow> exn + json" where
  "py_getitem (JObj kvs) k = (case map_of kvs k of None \<Rightarrow> Inl KeyError | Some v \<Rightarrow> Inr v)"
| "py_getitem (JArr xs) k = Inl TypeError"
| "py_getitem (JStr s) k = Inl TypeError"
| "py_getitem JNull k = Inl TypeError"
| "py_getitem (JBool b) k = Inl TypeError"
| "py_getitem (JInt i) k = Inl TypeError"
| "py_getitem (JFloat nonzero) k = Inl TypeError"

text \<open>
  \<open>str.isspace\<close> on one code point (the white space of the Unicode character database,
  as listed in CPython's \<open>_PyUnicode_IsWhitespace\<close>) and \<open>str.strip()\<close>.
\<close>

definition py_isspace :: "nat \<Rightarrow> bool" where
  "py_isspace c \<longleftrightarrow>
     (9 \<le> c \<and> c \<le> 13) \<or> (28 \<le> c \<and> c \<le> 32) \<or> c = 133 \<or> c = 160 \<or> c = 5760 \<or>
     (8192 \<le> c \<and> c \<le> 8202) \<or> c = 8232 \<or> c = 8233 \<or> c = 8239 \<or> c = 8287 \<or>
     c = 12288"

definition strip :: "pystr \<Rightarrow> pystr" where
  "strip s = rev (dropWhile py_isspace (rev (dropWhile py_isspace s)))"

text \<open>
  \<open>str.encode("utf-8")\<close>: one to four octets for each code point, and
  \<open>UnicodeEncodeError\<close> on a surrogate.
\<close>

definition surrogate :: "nat \<Rightarrow> bool" where
  "surrogate c \<longleftrightarrow> 55296 \<le> c \<and> c \<le> 57343"

definition encode_char :: "nat \<Rightarrow> exn + bytes" where
  "encode_char c =
     (if c < 128 then Inr [of_nat c]
      else if c < 2048 then Inr [of_nat (192 + c div 64), of_nat (128 + c mod 64)]
      else if surrogate c then Inl UnicodeEncodeError
      else if c < 65536 then
        Inr [of_nat (224 + c div 4096), of_nat (128 + c div 64 mod 64),
             of_nat (128 + c mod 64)]
      else
        Inr [of_nat (240 + c div 262144), of_nat (128 + c div 4096 mod 64),
             of_nat (128 + c div 64 mod 64), of_nat (128 + c mod 64)])"

fun encode_utf8 :: "pystr \<Rightarrow> exn + bytes" where
  "encode_utf8 [] = Inr []"
| "encode_utf8 (c # cs) =
     (case encode_char c of
        Inl e \<Rightarrow> Inl e
      | Inr b \<Rightarrow> (case encode_utf8 cs of Inl e \<Rightarrow> Inl e | Inr bs \<Rightarrow> Inr (b @ bs)))"

section \<open>Validator\<close>

text \<open>
  \<^verbatim>\<open>
  def validate_input(data, required_fields):
      if not data:
          raise BadRequest("No data provided")
      for field in required_fields:
          if field not in data or not data[field]:
              raise BadRequest(f"Missing required field: {field}")
          if not isinstance(data[field], str):
              raise BadRequest(f"Invalid data type for {field}")
          if len(data[field].strip()) == 0:
              raise BadRequest(f"Empty value for {field}")
          if len(data[field]) > 255:
              raise BadRequest(f"Value too long for {field}")
      return {k: data[k].strip() for k in required_fields}
  \<close>
  \<open>check_field\<close> is one round of the loop, \<open>check_fields\<close> the loop, and
  \<open>stripped_fields\<close> the dict comprehension of the last line.
\<close>

definition check_field :: "json \<Rightarrow> pystr \<Rightarrow> exn + unit" where
  "check_field data field =
     (case py_in field data of
        Inl e \<Rightarrow> Inl e
      | Inr present \<Rightarrow>
          if \<not> present then Inl (BadRequest (str ''Missing required field: '' @ field))
          else
            (case py_getitem data field of
               Inl e \<Rightarrow> Inl e
             | Inr v \<Rightarrow>
                 if \<not> truthy v then
                   Inl (BadRequest (str ''Missing required field: '' @ field))
                 else
                   (case v of
                      JStr s \<Rightarrow>
                        if length (strip s) = 0 then
                          Inl (BadRequest (str ''Empty value for '' @ field))
                        else if length s > 255 then
                          Inl (BadRequest (str ''Value too long for '' @ field))
                        else Inr ()
                    | _ \<Rightarrow> Inl (BadRequest (str ''Invalid data type for '' @ field)))))"

fun check_fields :: "json \<Rightarrow> pystr list \<Rightarrow> exn + unit" where
  "check_fields data [] = Inr ()"
| "check_fields data (field # fields) =
     (case check_field data field of
        Inl e \<Rightarrow> Inl e
      | Inr u \<Rightarrow> check_fields data fields)"

fun stripped_fields :: "json \<Rightarrow> pystr list \<Rightarrow> exn + (pystr \<times> pystr) list" where
  "stripped_fields data [] = Inr []"
| "stripped_fields data (k # ks) =
     (case py_getitem data k of
        Inl e \<Rightarrow> Inl e
      | Inr (JStr s) \<Rightarrow>
          (case stripped_fields data ks of
             Inl e \<Rightarrow> Inl e
           | Inr kvs \<Rightarrow> Inr ((k, strip s) # kvs))
      | Inr _ \<Rightarrow> Inl AttributeError)"

definition validate_input :: "json \<Rightarrow> pystr list \<Rightarrow> exn + (pystr \<times> pystr) list" where
  "validate_input data required_fields =
     (if \<not> truthy data then Inl (BadRequest (str ''No data provided''))
      else
        (case check_fields data required_fields of
           Inl e \<Rightarrow> Inl e
         | Inr u \<Rightarrow> stripped_fields data required_fields))"

text \<open>\<open>data["username"]\<close> on the dict that \<open>validate_input\<close> returns.\<close>

definition dict_get :: "(pystr \<times> pystr) list \<Rightarrow> pystr \<Rightarrow> exn + pystr" where
  "dict_get d k = (case map_of d k of None \<Rightarrow> Inl KeyError | Some v \<Rightarrow> Inr v)"

text \<open>
  \<^verbatim>\<open>
  def validate_username(username):
      if len(username) < 3:
          return False, "Username must be at least 3 characters long"
      if len(username) > 50:
          return False, "Username must be less than 50 characters"
      allowed_chars = set(
          "abcdefghijklmnopqrstuvwxyzABCDEFGHIJKLMNOPQRSTUVWXYZ0123456789_-."
      )
      if not set(username).issubset(allowed_chars):
          return False, "Username contains invalid characters"
      return True, "Valid username"
  \<close>
\<close>

definition allowed_chars :: "nat set" where
  "allowed_chars =
     set (str ''abcdefghijklmnopqrstuvwxyzABCDEFGHIJKLMNOPQRSTUVWXYZ0123456789_-.'')"

definition validate_username :: "pystr \<Rightarrow> bool \<times> pystr" where
  "validate_username username =
     (if length username < 3 then
        (False, str ''Username must be at least 3 characters long'')
      else if length username > 50 then
        (False, str ''Username must be less than 50 characters'')
      else if \<not> set username \<subseteq> allowed_chars then
        (False, str ''Username contains invalid characters'')
      else (True, str ''Valid username''))"

text \<open>
  The character classes of the specification, \<open>[A-Za-z0-9_\-.]\<close>, written as ranges of
  code points and kept apart from the literal of the source.
\<close>

definition spec_username_char :: "nat \<Rightarrow> bool" where
  "spec_username_char c \<longleftrightarrow>
     (65 \<le> c \<and> c \<le> 90) \<or> (97 \<le> c \<and> c \<le> 122) \<or> (48 \<le> c \<and> c \<le> 57) \<or>
     c = 95 \<or> c = 45 \<or> c = 46"

text \<open>
  \<open>str.isupper\<close>, \<open>str.islower\<close> and \<open>str.isdigit\<close> read the Unicode character
  database of the interpreter, which is not part of the repository: the three
  predicates on single code points are parameters of the model.
\<close>

record unicode_db =
  isupper :: "nat \<Rightarrow> bool"
  islower :: "nat \<Rightarrow> bool"
  isdigit :: "nat \<Rightarrow> bool"

text \<open>
  \<^verbatim>\<open>
  def validate_password(password):
      if len(password) < 8:
          return False, "Password must be at least 8 characters long"
      if len(password) > 128:
          return False, "Password too long"
      has_upper = any(c.isupper() for c in password)
      has_lower = any(c.islower() for c in password)
      has_digit = any(c.isdigit() for c in password)
      if not (has_upper and has_lower and has_digit):
          return (False,
                  "Password must contain uppercase, lowercase, and numeric characters")
      return True, "Valid password"
  \<close>
\<close>

definition validate_password :: "unicode_db \<Rightarrow> pystr \<Rightarrow> bool \<times> pystr" where
  "validate_password db password =
     (if length password < 8 then
        (False, str ''Password must be at least 8 characters long'')
      else if length password > 128 then
        (False, str ''Password too long'')
      else
        let has_upper = list_ex (isupper db) password;
            has_lower = list_ex (islower db) password;
            has_digit = list_ex (isdigit db) password
        in if \<not> (has_upper \<and> has_lower \<and> has_digit) then
             (False,
              str ''Password must contain uppercase, lowercase, and numeric characters'')
           else (True, str ''Valid password''))"

text \<open>
  The restriction of the character database to ASCII, on which every Python version
  agrees: it is used to evaluate the model on ASCII inputs.
\<close>

definition ascii_db :: unicode_db where
  "ascii_db =
     \<lparr> isupper = (\<lambda>c. 65 \<le> c \<and> c \<le> 90),
       islower = (\<lambda>c. 97 \<le> c \<and> c \<le> 122),
       isdigit = (\<lambda>c. 48 \<le> c \<and> c \<le> 57) \<rparr>"

section \<open>Credential hasher\<close>

text \<open>
  \<open>bcrypt\<close> is a library outside the repository: \<open>hashpw\<close> and \<open>checkpw\<close> are
  parameters, each returning a value or raising. The salt that \<open>bcrypt.gensalt()\<close>
  draws from the operating system is an explicit input of \<open>hash_password\<close>.
  \<^verbatim>\<open>
  def hash_password(password):
      salt = bcrypt.gensalt()
      password_hash = bcrypt.hashpw(password.encode("utf-8"), salt)
      return password_hash

  def verify_password(password, password_hash):
      return bcrypt.checkpw(password.encode("utf-8"), password_hash)
  \<close>
\<close>

record bcrypt_lib =
  hashpw :: "bytes \<Rightarrow> bytes \<Rightarrow> exn + bytes"
  checkpw :: "bytes \<Rightarrow> bytes \<Rightarrow> exn + bool"

definition hash_password :: "bcrypt_lib \<Rightarrow> bytes \<Rightarrow> pystr \<Rightarrow> exn + bytes" where
  "hash_password lib salt password =
     (case encode_utf8 password of
        Inl e \<Rightarrow> Inl e
      | Inr b \<Rightarrow> hashpw lib b salt)"

definition verify_password :: "bcrypt_lib \<Rightarrow> pystr \<Rightarrow> bytes \<Rightarrow> exn + bool" where
  "verify_password lib password password_hash =
     (case encode_utf8 password of
        Inl e \<Rightarrow> Inl e
      | Inr b \<Rightarrow> checkpw lib b password_hash)"

text \<open>
  A stand-in with the interface of the library, on which the handlers can be evaluated:
  the hash is the salt followed by the octets of the password, a salt has two octets,
  and neither function raises. It is not bcrypt.
\<close>

definition stub_bcrypt :: bcrypt_lib where
  "stub_bcrypt =
     \<lparr> hashpw = (\<lambda>password salt. Inr (take 2 salt @ password)),
       checkpw = (\<lambda>password hashed. Inr (drop 2 hashed = password)) \<rparr>"

section \<open>User store\<close>

text \<open>
  The committed rows of the relation \<open>users\<close> of \<open>init_db\<close>, in insertion order, which
  is the order of their ids. \<open>created_at\<close> is the text of
  \<open>datetime.utcnow().isoformat()\<close>, which is ASCII; the engine compares it as text,
  which on code point lists is the lexicographic order. The column \<open>updated_at\<close> is
  never read and is left out.
  \<^verbatim>\<open>
  CREATE TABLE IF NOT EXISTS users (
      id INTEGER PRIMARY KEY AUTOINCREMENT,
      username TEXT UNIQUE NOT NULL,
      password_hash BLOB NOT NULL,
      created_at TEXT NOT NULL,
      updated_at TEXT DEFAULT CURRENT_TIMESTAMP)
  \<close>
\<close>

record user_row =
  row_id :: int
  username :: pystr
  password_hash :: bytes
  created_at :: pystr

type_synonym store = "user_row list"

text \<open>
  \<open>conn.execute("SELECT ... FROM users WHERE username = ?", (username,)).fetchone()\<close>.
  The \<open>sqlite3\<close> module hands the parameter to the engine as UTF-8, so a username with
  a surrogate raises \<open>UnicodeEncodeError\<close> (which is not a \<open>sqlite3.Error\<close>) before
  the statement runs. The statement reads the committed rows.
\<close>

definition select_by_username :: "store \<Rightarrow> pystr \<Rightarrow> exn + user_row option" where
  "select_by_username st u =
     (case encode_utf8 u of
        Inl e \<Rightarrow> Inl e
      | Inr b \<Rightarrow> Inr (find (\<lambda>r. username r = u) st))"

text \<open>
  \<open>INSERT INTO users (username, password_hash, created_at) VALUES (?, ?, ?)\<close>, run
  while no other connection holds the write lock. The username is bound as above. The
  engine refuses a second row with the same username (\<open>UNIQUE\<close>) with
  \<open>sqlite3.IntegrityError\<close>, a \<open>sqlite3.Error\<close>; otherwise the new row gets the next id
  (no row is ever deleted and a refused statement uses no id, so it is one more than
  the largest id in the relation), which \<open>cursor.lastrowid\<close> returns. The row is pending
  until \<open>conn.commit()\<close>, which makes it a row of the relation.
\<close>

definition next_id :: "store \<Rightarrow> int" where
  "next_id st = fold max (map row_id st) 0 + 1"

definition db_insert :: "store \<Rightarrow> pystr \<Rightarrow> bytes \<Rightarrow> pystr \<Rightarrow> exn + user_row" where
  "db_insert st u h t =
     (case encode_utf8 u of
        Inl e \<Rightarrow> Inl e
      | Inr b \<Rightarrow>
          if u \<in> set (map username st) then Inl Sqlite3Error
          else Inr \<lparr> row_id = next_id st, username = u, password_hash = h,
                     created_at = t \<rparr>)"

definition db_commit :: "store \<Rightarrow> user_row \<Rightarrow> store" where
  "db_commit st row = st @ [row]"

text \<open>
  \<open>SELECT id, username, created_at FROM users ORDER BY created_at DESC\<close>. SQL leaves
  the order of rows with equal keys open; the engine sorts the rows of a scan of the
  table and keeps rows with equal keys in the order of their ids, and so does the
  model.
\<close>

definition select_all_desc :: "store \<Rightarrow> user_row list" where
  "select_all_desc st = rev (sort_key created_at (rev st))"

text \<open>
  \<open>get_db_connection\<close> wraps the body of a \<open>with\<close> block: a \<open>sqlite3.Error\<close> raised in
  it leaves as \<open>DatabaseError\<close> after a rollback, any other exception is raised again
  after a rollback.
\<close>

definition get_db_connection :: "exn + 'a \<Rightarrow> exn + 'a" where
  "get_db_connection body =
     (case body of
        Inl Sqlite3Error \<Rightarrow> Inl DatabaseError
      | Inl e \<Rightarrow> Inl e
      | Inr v \<Rightarrow> Inr v)"

section \<open>Account service\<close>

text \<open>A response is the JSON body given to \<open>jsonify\<close> and the HTTP status.\<close>

type_synonym response = "json \<times> nat"

definition error_response :: "pystr \<Rightarrow> nat \<Rightarrow> response" where
  "error_response msg status = (JObj [(str ''error'', JStr msg)], status)"

text \<open>
  \<open>str(e)\<close> of a werkzeug \<open>BadRequest\<close> with description \<open>d\<close>.
\<close>

definition bad_request_str :: "pystr \<Rightarrow> pystr" where
  "bad_request_str d = str ''400 Bad Request: '' @ d"

text \<open>
  The three \<open>except\<close> clauses that close each handler; \<open>db_msg\<close> is the message of the
  \<open>DatabaseError\<close> clause.
\<close>

definition handle_exn :: "pystr \<Rightarrow> exn \<Rightarrow> response" where
  "handle_exn db_msg e =
     (case e of
        BadRequest d \<Rightarrow> error_response (bad_request_str d) 400
      | DatabaseError \<Rightarrow> error_response db_msg 500
      | _ \<Rightarrow> error_response (str ''Internal server error'') 500)"

text \<open>
  \<open>get_users\<close>: the rows in descending order of \<open>created_at\<close>, each as a dict of
  \<open>id\<close>, \<open>username\<close> and \<open>created_at\<close>.
\<close>

definition user_json :: "user_row \<Rightarrow> json" where
  "user_json user =
     JObj [(str ''id'', JInt (row_id user)),
           (str ''username'', JStr (username user)),
           (str ''created_at'', JStr (created_at user))]"

definition get_users :: "store \<Rightarrow> response" where
  "get_users st =
     (case get_db_connection (Inr (select_all_desc st)) of
        Inl DatabaseError \<Rightarrow> error_response (str ''Database error'') 500
      | Inl e \<Rightarrow> error_response (str ''Internal server error'') 500
      | Inr users \<Rightarrow> (JObj [(str ''users'', JArr (map user_json users))], 200))"

text \<open>
  \<open>create_user\<close>. \<open>create_user_db\<close> is the body of its \<open>with\<close> block, run with no
  other connection at work: the lookup of the username, then the insertion and the
  commit. \<open>salt\<close> is what \<open>gensalt\<close> returns during the request and \<open>now\<close> the text of
  \<open>datetime.utcnow().isoformat()\<close>. The store is returned with the response.
\<close>

definition created_response :: "int \<Rightarrow> pystr \<Rightarrow> response" where
  "created_response user_id u =
     (JObj [(str ''message'', JStr (str ''User created successfully'')),
            (str ''user_id'', JInt user_id),
            (str ''username'', JStr u)], 201)"

definition create_user_db ::
  "pystr \<Rightarrow> store \<Rightarrow> pystr \<Rightarrow> bytes \<Rightarrow> exn + response \<times> store" where
  "create_user_db now st u h =
     (case select_by_username st u of
        Inl e \<Rightarrow> Inl e
      | Inr (Some existing_user) \<Rightarrow>
          Inr (error_response (str ''Username already exists'') 400, st)
      | Inr None \<Rightarrow>
          (case db_insert st u h now of
             Inl e \<Rightarrow> Inl e
           | Inr row \<Rightarrow> Inr (created_response (row_id row) u, db_commit st row)))"

definition create_user_try ::
  "unicode_db \<Rightarrow> bcrypt_lib \<Rightarrow> bytes \<Rightarrow> pystr \<Rightarrow> store \<Rightarrow> json \<Rightarrow> exn + response \<times> store"
  where
  "create_user_try db lib salt now st request_json =
     (case validate_input request_json [str ''username'', str ''password''] of
        Inl e \<Rightarrow> Inl e
      | Inr data \<Rightarrow>
     (case dict_get data (str ''username'') of
        Inl e \<Rightarrow> Inl e
      | Inr u \<Rightarrow>
     (case dict_get data (str ''password'') of
        Inl e \<Rightarrow> Inl e
      | Inr password \<Rightarrow>
          if \<not> fst (validate_username u) then
            Inr (error_response (snd (validate_username u)) 400, st)
          else if \<not> fst (validate_password db password) then
            Inr (error_response (snd (validate_password db password)) 400, st)
          else
            (case hash_password lib salt password of
               Inl e \<Rightarrow> Inl e
             | Inr h \<Rightarrow> get_db_connection (create_user_db now st u h)))))"

definition create_user ::
  "unicode_db \<Rightarrow> bcrypt_lib \<Rightarrow> bytes \<Rightarrow> pystr \<Rightarrow> store \<Rightarrow> json \<Rightarrow> response \<times> store"
  where
  "create_user db lib salt now st request_json =
     (case create_user_try db lib salt now st request_json of
        Inl e \<Rightarrow> (handle_exn (str ''User creation failed'') e, st)
      | Inr result \<Rightarrow> result)"

text \<open>
  \<open>login\<close>: the lookup runs inside the \<open>with\<close> block, the verification after it, and
  only when a row was found (\<open>user and verify_password(...)\<close>).
\<close>

definition login_try :: "bcrypt_lib \<Rightarrow> store \<Rightarrow> json \<Rightarrow> exn + response" where
  "login_try lib st request_json =
     (case validate_input request_json [str ''username'', str ''password''] of
        Inl e \<Rightarrow> Inl e
      | Inr data \<Rightarrow>
     (case dict_get data (str ''username'') of
        Inl e \<Rightarrow> Inl e
      | Inr u \<Rightarrow>
     (case dict_get data (str ''password'') of
        Inl e \<Rightarrow> Inl e
      | Inr password \<Rightarrow>
     (case get_db_connection (select_by_username st u) of
        Inl e \<Rightarrow> Inl e
      | Inr None \<Rightarrow> Inr (error_response (str ''Invalid credentials'') 401)
      | Inr (Some user) \<Rightarrow>
          (case verify_password lib password (password_hash user) of
             Inl e \<Rightarrow> Inl e
           | Inr ok \<Rightarrow>
               if ok then
                 Inr (JObj [(str ''message'', JStr (str ''Login successful'')),
                            (str ''user_id'', JInt (row_id user)),
                            (str ''username'', JStr (username user))], 200)
               else Inr (error_response (str ''Invalid credentials'') 401))))))"

definition login :: "bcrypt_lib \<Rightarrow> store \<Rightarrow> json \<Rightarrow> response" where
  "login lib st request_json =
     (case login_try lib st request_json of
        Inl e \<Rightarrow> handle_exn (str ''Authentication failed'') e
      | Inr r \<Rightarrow> r)"

text \<open>
  The generic field validation in the words of the specification: the field is
  present, a string, non-empty after trimming and at most 255 characters long.
  \<open>field_text\<close> is the string under a key (empty when there is none).
\<close>

definition generic_field_ok :: "(pystr \<times> json) list \<Rightarrow> pystr \<Rightarrow> bool" where
  "generic_field_ok kvs k =
     (case map_of kvs k of
        Some (JStr s) \<Rightarrow> strip s \<noteq> [] \<and> length s \<le> 255
      | _ \<Rightarrow> False)"

definition field_text :: "(pystr \<times> json) list \<Rightarrow> pystr \<Rightarrow> pystr" where
  "field_text kvs k = (case map_of kvs k of Some (JStr s) \<Rightarrow> s | _ \<Rightarrow> [])"

section \<open>Registrations running side by side\<close>

text \<open>
  Each request of the server opens its own connection, and the engine runs one statement
  at a time. A registration that has passed validation and hashing runs three
  statements: the \<open>SELECT\<close> of the check, the \<open>INSERT\<close>, and the commit; between any two
  of them a statement of another request can run. It is therefore a small machine over
  the committed rows: about to select, about to insert, about to commit its pending
  row, or finished with its response. The fields of the first two states are the
  username, the hash and the text of the clock.

  From its \<open>INSERT\<close> to its commit a registration holds the write lock of the database.
  Its pending row is not seen by the \<open>SELECT\<close> of another connection. The \<open>INSERT\<close> of
  another connection waits for the lock; if the wait outlasts the timeout of its
  connection, it raises \<open>sqlite3.OperationalError\<close>, a \<open>sqlite3.Error\<close>.
\<close>

datatype registration =
    AtSelect pystr bytes pystr
  | AtInsert pystr bytes pystr
  | AtCommit user_row
  | Finished response


text \<open>
  The next statement of a registration; \<open>locked\<close> says whether another registration
  holds the write lock. An \<open>INSERT\<close> that finds the lock taken stays where it is.
\<close>

fun db_step :: "store \<Rightarrow> bool \<Rightarrow> registration \<Rightarrow> registration \<times> store" where
  "db_step st locked (AtSelect u h now) =
     (case get_db_connection (select_by_username st u) of
        Inl e \<Rightarrow> (Finished (handle_exn (str ''User creation failed'') e), st)
      | Inr (Some existing_user) \<Rightarrow>
          (Finished (error_response (str ''Username already exists'') 400), st)
      | Inr None \<Rightarrow> (AtInsert u h now, st))"
| "db_step st locked (AtInsert u h now) =
     (if locked then (AtInsert u h now, st)
      else
        (case get_db_connection (db_insert st u h now) of
           Inl e \<Rightarrow> (Finished (handle_exn (str ''User creation failed'') e), st)
         | Inr row \<Rightarrow> (AtCommit row, st)))"
| "db_step st locked (AtCommit row) =
     (Finished (created_response (row_id row) (username row)), db_commit st row)"
| "db_step st locked (Finished r) = (Finished r, st)"











section \<open>Sample requests and stores\<close>

text \<open>The keys of a dict, and the JSON body \<open>{"username": u, "password": p}\<close>.\<close>

fun dict_keys :: "json \<Rightarrow> pystr list" where
  "dict_keys (JObj kvs) = map fst kvs"
| "dict_keys v = []"

definition credentials :: "string \<Rightarrow> string \<Rightarrow> json" where
  "credentials u p =
     JObj [(str ''username'', JStr (str u)), (str ''password'', JStr (str p))]"

text \<open>
  The bodies \<open>{"username": "testuser", "password": "Abcdefg1\ud800"}\<close> and
  \<open>{"username": "\ud800abc", "password": "pw"}\<close>, as \<open>json.loads\<close> reads them: the
  escape \<open>\ud800\<close> becomes the one code point U+D800.
\<close>

definition surrogate_password :: json where
  "surrogate_password =
     JObj [(str ''username'', JStr (str ''testuser'')),
           (str ''password'', JStr (str ''Abcdefg1'' @ [55296]))]"

definition surrogate_username :: json where
  "surrogate_username =
     JObj [(str ''username'', JStr (55296 # str ''abc'')),
           (str ''password'', JStr (str ''pw''))]"

text \<open>
  A store with one user whose name and password (\<open>a!\<close> and \<open>pw\<close>, hashed by the
  stand-in with the salt \<open>[1, 2]\<close>) registration would refuse.
\<close>

definition demo_store :: store where
  "demo_store =
     [\<lparr> row_id = 1, username = str ''a!'', password_hash = [1, 2, 112, 119],
        created_at = str ''2024-01-01T00:00:00'' \<rparr>]"

text \<open>Two users created one microsecond apart.\<close>

definition two_users :: store where
  "two_users =
     [\<lparr> row_id = 1, username = str ''ann'', password_hash = [1, 2, 3],
        created_at = str ''2024-01-01T00:00:00'' \<rparr>,
      \<lparr> row_id = 2, username = str ''bob'', password_hash = [4, 5, 6],
        created_at = str ''2024-01-01T00:00:00.000001'' \<rparr>]"

section \<open>Properties of the validator\<close>

lemma allowed_chars_ranges: "c \<in> allowed_chars \<longleftrightarrow> spec_username_char c"
  unfolding allowed_chars_def str_def spec_username_char_def
  by (simp, arith)

text \<open>
  Claim C6. For every string \<open>s\<close>, \<open>validate_username s\<close> fails as too short when
  \<open>len(s) < 3\<close>, else fails as too long when \<open>len(s) > 50\<close>, else fails for invalid
  characters when some character of \<open>s\<close> lies outside \<open>[A-Za-z0-9_\-.]\<close>, else
  succeeds: the checks are applied in the order length-short, length-long, charset.
  The reasons are the messages of the source.
\<close>

theorem validate_username_spec:
  "validate_username s =
     (if length s < 3 then (False, str ''Username must be at least 3 characters long'')
      else if length s > 50 then (False, str ''Username must be less than 50 characters'')
      else if \<exists>c \<in> set s. \<not> spec_username_char c then
        (False, str ''Username contains invalid characters'')
      else (True, str ''Valid username''))"
  by (auto simp: validate_username_def allowed_chars_ranges subset_iff)

theorem validate_username_spec_witness:
  "validate_username (str ''ab'') =
     (False, str ''Username must be at least 3 characters long'') \<and>
   validate_username (str ''test@user!'') =
     (False, str ''Username contains invalid characters'') \<and>
   validate_username (str ''user.name'') = (True, str ''Valid username'')"
  using validate_username_spec [of "str ''ab''"]
    validate_username_spec [of "str ''test@user!''"]
    validate_username_spec [of "str ''user.name''"]
  by (simp add: str_def spec_username_char_def)

text \<open>
  Claim C7. For every string \<open>s\<close>, \<open>validate_password s\<close> fails as too short when
  \<open>len(s) < 8\<close>, else fails as too long when \<open>len(s) > 128\<close>, else fails with the one
  combined message when \<open>s\<close> has no uppercase letter, or no lowercase letter, or no
  digit, else succeeds: both length checks come before the complexity check. This holds
  for every character database.
\<close>

theorem validate_password_spec:
  "validate_password db s =
     (if length s < 8 then (False, str ''Password must be at least 8 characters long'')
      else if length s > 128 then (False, str ''Password too long'')
      else if (\<forall>c \<in> set s. \<not> isupper db c) \<or> (\<forall>c \<in> set s. \<not> islower db c) \<or>
              (\<forall>c \<in> set s. \<not> isdigit db c) then
        (False, str ''Password must contain uppercase, lowercase, and numeric characters'')
      else (True, str ''Valid password''))"
  by (auto simp: validate_password_def list_ex_iff Let_def)

theorem validate_password_spec_witness:
  "validate_password ascii_db (str ''weak'') =
     (False, str ''Password must be at least 8 characters long'') \<and>
   validate_password ascii_db (str ''lowercase'') =
     (False, str ''Password must contain uppercase, lowercase, and numeric characters'') \<and>
   validate_password ascii_db (str ''UPPERCASE123'') =
     (False, str ''Password must contain uppercase, lowercase, and numeric characters'') \<and>
   validate_password ascii_db (str ''NoNumbers'') =
     (False, str ''Password must contain uppercase, lowercase, and numeric characters'') \<and>
   validate_password ascii_db (str ''SecurePass123'') = (True, str ''Valid password'')"
  using validate_password_spec [of ascii_db "str ''weak''"]
    validate_password_spec [of ascii_db "str ''lowercase''"]
    validate_password_spec [of ascii_db "str ''UPPERCASE123''"]
    validate_password_spec [of ascii_db "str ''NoNumbers''"]
    validate_password_spec [of ascii_db "str ''SecurePass123''"]
  by (simp add: str_def ascii_db_def)

section \<open>Generic field validation\<close>

lemma strip_Nil: "strip [] = []"
  by (simp add: strip_def)

lemma keys_distinct: "str ''username'' \<noteq> str ''password''"
  by (simp add: str_def)

text \<open>
  A dict that holds two strings under the two keys, each non-empty after stripping and
  at most 255 code points long, passes, and the result holds the stripped values.
\<close>

lemma validate_input_ok:
  assumes "map_of kvs U = Some (JStr u)" and "map_of kvs P = Some (JStr p)"
    and "strip u \<noteq> []" and "strip p \<noteq> []"
    and "length u \<le> 255" and "length p \<le> 255"
  shows "validate_input (JObj kvs) [U, P] = Inr [(U, strip u), (P, strip p)]"
proof -
  from assms(1) have ne: "kvs \<noteq> []" by auto
  from assms(1) have inU: "U \<in> fst ` set kvs"
    by (metis map_of_eq_None_iff option.distinct(1))
  from assms(2) have inP: "P \<in> fst ` set kvs"
    by (metis map_of_eq_None_iff option.distinct(1))
  from assms(3) have u: "u \<noteq> []" using strip_Nil by auto
  from assms(4) have p: "p \<noteq> []" using strip_Nil by auto
  have "check_field (JObj kvs) U = Inr ()"
    using assms inU u by (simp add: check_field_def)
  moreover have "check_field (JObj kvs) P = Inr ()"
    using assms inP p by (simp add: check_field_def)
  ultimately show ?thesis
    using assms ne by (simp add: validate_input_def)
qed

section \<open>Properties of the credential hasher\<close>

lemma encode_utf8_surrogate:
  "\<exists>c \<in> set s. surrogate c \<Longrightarrow> encode_utf8 s = Inl UnicodeEncodeError"
proof (induction s)
  case Nil
  then show ?case by simp
next
  case (Cons c cs)
  show ?case
  proof (cases "surrogate c")
    case True
    then show ?thesis by (simp add: encode_char_def surrogate_def)
  next
    case False
    with Cons.prems have "\<exists>c \<in> set cs. surrogate c" by simp
    then have "encode_utf8 cs = Inl UnicodeEncodeError" by (rule Cons.IH)
    then show ?thesis by (simp add: encode_char_def split: sum.splits)
  qed
qed

lemma encode_utf8_total:
  "\<forall>c \<in> set s. \<not> surrogate c \<Longrightarrow> \<exists>b. encode_utf8 s = Inr b"
proof (induction s)
  case Nil
  then show ?case by simp
next
  case (Cons c cs)
  then obtain bs where "encode_utf8 cs = Inr bs" by auto
  moreover from Cons.prems have "\<exists>b. encode_char c = Inr b"
    by (simp add: encode_char_def)
  ultimately show ?case by auto
qed

text \<open>
  Both wrappers hand the same octets to the library: a hash that \<open>hash_password\<close>
  returned is verified by \<open>checkpw\<close> on the octets that \<open>hashpw\<close> was given.
\<close>

lemma hash_then_verify:
  "hash_password lib salt password = Inr h \<Longrightarrow>
   \<exists>b. encode_utf8 password = Inr b \<and> hashpw lib b salt = Inr h \<and>
       verify_password lib password h = checkpw lib b h"
  by (auto simp: hash_password_def verify_password_def split: sum.splits)

text \<open>
  Claim C1, as amended. \<open>verify_password\<close> has no handler of its own. On a password
  that contains a surrogate code point it raises \<open>UnicodeEncodeError\<close>, whatever the
  hash; on every other password and every byte sequence it is exactly the outcome of
  \<open>checkpw\<close> on the UTF-8 octets of the password and the hash: the boolean that
  \<open>checkpw\<close> returns, or the exception that \<open>checkpw\<close> raises.
\<close>

theorem verify_password_outcome:
  "if \<exists>c \<in> set password. surrogate c
   then verify_password lib password h = Inl UnicodeEncodeError
   else \<exists>b. encode_utf8 password = Inr b \<and>
          verify_password lib password h = checkpw lib b h"
proof (cases "\<exists>c \<in> set password. surrogate c")
  case True
  then show ?thesis
    by (simp add: verify_password_def encode_utf8_surrogate)
next
  case False
  then obtain b where "encode_utf8 password = Inr b"
    using encode_utf8_total [of password] by auto
  with False show ?thesis by (simp add: verify_password_def)
qed

theorem verify_password_outcome_witness:
  "verify_password stub_bcrypt (str ''pw'') [1, 2, 112, 119] = Inr True \<and>
   verify_password stub_bcrypt [112, 55296] [1, 2, 112, 119] = Inl UnicodeEncodeError"
  using verify_password_outcome [of "str ''pw''" stub_bcrypt "[1, 2, 112, 119]"]
    verify_password_outcome [of "[112, 55296]" stub_bcrypt "[1, 2, 112, 119]"]
  by (simp add: str_def surrogate_def stub_bcrypt_def encode_char_def)

text \<open>
  The claim as first stated (a boolean for every password and every hash, never an
  exception) fails on the one-character password U+D800, even with a library that never
  raises.
\<close>

theorem verify_password_raises:
  "verify_password stub_bcrypt [55296] [] = Inl UnicodeEncodeError"
  by (simp add: verify_password_def encode_char_def surrogate_def)

section \<open>Properties of the store\<close>

lemma encode_utf8_error: "encode_utf8 s = Inl e \<Longrightarrow> e = UnicodeEncodeError"
proof (induction s)
  case Nil
  then show ?case by simp
next
  case (Cons c cs)
  then show ?case
    by (auto simp: encode_char_def split: sum.splits if_splits)
qed

text \<open>A username that passes \<open>validate_username\<close> is ASCII, so it can be bound.\<close>

lemma valid_username_encodes:
  assumes "fst (validate_username u)"
  shows "\<exists>b. encode_utf8 u = Inr b"
proof -
  from assms have "set u \<subseteq> allowed_chars"
    by (auto simp: validate_username_def split: if_splits)
  then have "\<forall>c \<in> set u. \<not> surrogate c"
    by (auto simp: allowed_chars_ranges spec_username_char_def surrogate_def)
  then show ?thesis by (rule encode_utf8_total)
qed

lemma select_encodable:
  "encode_utf8 u = Inr b \<Longrightarrow>
   select_by_username st u = Inr (find (\<lambda>r. username r = u) st)"
  by (simp add: select_by_username_def)

lemma select_error: "select_by_username st u = Inl e \<Longrightarrow> e = UnicodeEncodeError"
  by (auto simp: select_by_username_def encode_utf8_error split: sum.splits)

lemma find_None_username:
  "find (\<lambda>r. username r = u) st = None \<longleftrightarrow> u \<notin> set (map username st)"
  by (auto simp: find_None_iff)

lemma find_Some_username:
  "u \<in> set (map username st) \<Longrightarrow> \<exists>user. find (\<lambda>r. username r = u) st = Some user"
  using find_None_username [of u st] by auto



section \<open>Evaluation on sample requests\<close>

lemmas eval_defs =
  credentials_def validate_input_def check_field_def strip_def py_isspace_def str_def
  dict_get_def validate_username_def allowed_chars_def validate_password_def ascii_db_def
  hash_password_def verify_password_def stub_bcrypt_def encode_char_def surrogate_def
  select_by_username_def db_insert_def db_commit_def next_id_def get_db_connection_def
  error_response_def handle_exn_def bad_request_str_def created_response_def
  create_user_db_def create_user_try_def create_user_def login_try_def login_def
  demo_store_def surrogate_password_def surrogate_username_def

lemma testuser_checks:
  "validate_input (credentials ''testuser'' ''SecurePass123'')
       [str ''username'', str ''password''] =
     Inr [(str ''username'', str ''testuser''), (str ''password'', str ''SecurePass123'')]"
  "fst (validate_username (str ''testuser''))"
  "fst (validate_password ascii_db (str ''SecurePass123''))"
  "hash_password stub_bcrypt salt (str ''SecurePass123'') =
     Inr (take 2 salt @ [83, 101, 99, 117, 114, 101, 80, 97, 115, 115, 49, 50, 51])"
  by (simp_all add: eval_defs)

lemma register_testuser:
  "create_user ascii_db stub_bcrypt [1, 2] (str ''2024-01-01T00:00:00'') []
     (credentials ''testuser'' ''SecurePass123'') =
   ((JObj [(str ''message'', JStr (str ''User created successfully'')),
           (str ''user_id'', JInt 1),
           (str ''username'', JStr (str ''testuser''))], 201),
    [\<lparr> row_id = 1, username = str ''testuser'',
       password_hash = [1, 2, 83, 101, 99, 117, 114, 101, 80, 97, 115, 115, 49, 50, 51],
       created_at = str ''2024-01-01T00:00:00'' \<rparr>])"
  by (simp add: eval_defs)

lemma login_checks:
  "validate_input (credentials ''zz'' ''pw'') [str ''username'', str ''password''] =
     Inr [(str ''username'', str ''zz''), (str ''password'', str ''pw'')]"
  "validate_input (credentials ''a!'' ''no'') [str ''username'', str ''password''] =
     Inr [(str ''username'', str ''a!''), (str ''password'', str ''no'')]"
  "select_by_username demo_store (str ''zz'') = Inr None"
  "select_by_username demo_store (str ''a!'') = Inr (Some (hd demo_store))"
  "verify_password stub_bcrypt (str ''no'') (password_hash (hd demo_store)) = Inr False"
  by (simp_all add: eval_defs)

lemma surrogate_checks:
  "validate_input surrogate_password [str ''username'', str ''password''] =
     Inr [(str ''username'', str ''testuser''),
          (str ''password'', str ''Abcdefg1'' @ [55296])]"
  "fst (validate_username (str ''testuser''))"
  "fst (validate_password ascii_db (str ''Abcdefg1'' @ [55296]))"
  "validate_input surrogate_username [str ''username'', str ''password''] =
     Inr [(str ''username'', 55296 # str ''abc''), (str ''password'', str ''pw'')]"
  by (simp_all add: eval_defs)



section \<open>Registration\<close>

text \<open>
  Claim C4, as amended. For every registration request that passes the generic field
  validation and the username and password checks, whose password is hashed without an
  exception and whose username is not yet stored, \<open>create_user\<close> answers 201 with the
  body \<open>{"message": "User created successfully", "user_id": id, "username": username}\<close>,
  where \<open>id\<close> is the id of the new row. The body holds neither \<open>created_at\<close> nor the
  password hash; both are in the row that the store gains.
\<close>

theorem create_user_success:
  assumes "validate_input request_json [str ''username'', str ''password''] = Inr data"
    and "map_of data (str ''username'') = Some u"
    and "map_of data (str ''password'') = Some password"
    and "fst (validate_username u)"
    and "fst (validate_password db password)"
    and "hash_password lib salt password = Inr h"
    and "u \<notin> set (map username st)"
  shows "create_user db lib salt now st request_json =
     ((JObj [(str ''message'', JStr (str ''User created successfully'')),
             (str ''user_id'', JInt (next_id st)),
             (str ''username'', JStr u)], 201),
      st @ [\<lparr> row_id = next_id st, username = u, password_hash = h, created_at = now \<rparr>])"
proof -
  from assms(4) obtain b where b: "encode_utf8 u = Inr b"
    using valid_username_encodes by blast
  from assms(7) have "find (\<lambda>r. username r = u) st = None"
    by (simp add: find_None_username)
  with b have "select_by_username st u = Inr None" by (simp add: select_encodable)
  with assms b show ?thesis
    by (simp add: create_user_def create_user_try_def dict_get_def get_db_connection_def
        create_user_db_def db_insert_def db_commit_def created_response_def)
qed

theorem create_user_success_witness:
  "create_user ascii_db stub_bcrypt [3, 4] (str ''2024-01-02T00:00:00'') demo_store
     (credentials ''testuser'' ''SecurePass123'') =
   ((JObj [(str ''message'', JStr (str ''User created successfully'')),
           (str ''user_id'', JInt 2),
           (str ''username'', JStr (str ''testuser''))], 201),
    demo_store @ [\<lparr> row_id = 2, username = str ''testuser'',
       password_hash = [3, 4, 83, 101, 99, 117, 114, 101, 80, 97, 115, 115, 49, 50, 51],
       created_at = str ''2024-01-02T00:00:00'' \<rparr>])"
proof -
  have "str ''testuser'' \<notin> set (map username demo_store)"
    by (simp add: demo_store_def str_def)
  moreover have "next_id demo_store = 2" by (simp add: next_id_def demo_store_def)
  ultimately show ?thesis
    using create_user_success [OF testuser_checks(1) _ _ testuser_checks(2,3)
        testuser_checks(4) [of "[3, 4]"],
        where st = demo_store and now = "str ''2024-01-02T00:00:00''"]
      keys_distinct
    by simp
qed

text \<open>
  The claim as first stated asks for \<open>created_at\<close> in the result: the successful
  registration of \<open>testuser\<close> answers 201 with a body that has no such key.
\<close>

theorem create_user_omits_created_at:
  "snd (fst (create_user ascii_db stub_bcrypt [1, 2] (str ''2024-01-01T00:00:00'') []
       (credentials ''testuser'' ''SecurePass123''))) = 201 \<and>
   py_in (str ''created_at'')
     (fst (fst (create_user ascii_db stub_bcrypt [1, 2] (str ''2024-01-01T00:00:00'') []
       (credentials ''testuser'' ''SecurePass123'')))) = Inr False"
  by (simp add: register_testuser) (simp add: str_def)

text \<open>
  Registering twice in a row. When the password is hashed without an exception on both
  attempts, the first attempt on a store without the username answers 201 and the
  second answers 400 with \<open>{"error": "Username already exists"}\<close> and leaves the store
  as the first attempt left it.
\<close>

lemma create_user_twice:
  assumes "validate_input request_json [str ''username'', str ''password''] = Inr data"
    and "map_of data (str ''username'') = Some u"
    and "map_of data (str ''password'') = Some password"
    and "fst (validate_username u)"
    and "fst (validate_password db password)"
    and "hash_password lib salt1 password = Inr h1"
    and "hash_password lib salt2 password = Inr h2"
    and "u \<notin> set (map username st)"
  shows "case create_user db lib salt1 now1 st request_json of
           (first, st1) \<Rightarrow>
             snd first = 201 \<and>
             st1 = st @ [\<lparr> row_id = next_id st, username = u, password_hash = h1,
                            created_at = now1 \<rparr>] \<and>
             create_user db lib salt2 now2 st1 request_json =
               ((JObj [(str ''error'', JStr (str ''Username already exists''))], 400), st1)"
proof -
  let ?st1 = "st @ [\<lparr> row_id = next_id st, username = u, password_hash = h1,
                       created_at = now1 \<rparr>]"
  from assms(4) obtain b where b: "encode_utf8 u = Inr b"
    using valid_username_encodes by blast
  have "u \<in> set (map username ?st1)" by simp
  then obtain user where "find (\<lambda>r. username r = u) ?st1 = Some user"
    using find_Some_username by blast
  with b have "select_by_username ?st1 u = Inr (Some user)"
    by (simp add: select_encodable)
  with assms have "create_user db lib salt2 now2 ?st1 request_json =
      ((JObj [(str ''error'', JStr (str ''Username already exists''))], 400), ?st1)"
    by (simp add: create_user_def create_user_try_def dict_get_def get_db_connection_def
        create_user_db_def error_response_def)
  moreover from assms(8) have "find (\<lambda>r. username r = u) st = None"
    by (simp add: find_None_username)
  with b have "select_by_username st u = Inr None" by (simp add: select_encodable)
  with assms b have "create_user db lib salt1 now1 st request_json =
     ((JObj [(str ''message'', JStr (str ''User created successfully'')),
             (str ''user_id'', JInt (next_id st)),
             (str ''username'', JStr u)], 201), ?st1)"
    by (simp add: create_user_def create_user_try_def dict_get_def get_db_connection_def
        create_user_db_def db_insert_def db_commit_def created_response_def)
  ultimately show ?thesis by simp
qed

lemma create_user_twice_testuser:
  "create_user ascii_db stub_bcrypt [3, 4] (str ''2024-01-02T00:00:00'')
     (snd (create_user ascii_db stub_bcrypt [1, 2] (str ''2024-01-01T00:00:00'') []
        (credentials ''testuser'' ''SecurePass123'')))
     (credentials ''testuser'' ''SecurePass123'') =
   ((JObj [(str ''error'', JStr (str ''Username already exists''))], 400),
    [\<lparr> row_id = 1, username = str ''testuser'',
       password_hash = [1, 2, 83, 101, 99, 117, 114, 101, 80, 97, 115, 115, 49, 50, 51],
       created_at = str ''2024-01-01T00:00:00'' \<rparr>])"
  using create_user_twice [OF testuser_checks(1) _ _ testuser_checks(2,3)
      testuser_checks(4) [of "[1, 2]"] testuser_checks(4) [of "[3, 4]"],
      where st = "[]" and ?now1.0 = "str ''2024-01-01T00:00:00''"
        and ?now2.0 = "str ''2024-01-02T00:00:00''"]
    keys_distinct
  by (simp add: next_id_def split: prod.splits)

text \<open>
  Claim C5 says that every valid username and password, registered twice in a row,
  gives success and then a conflict. The code does not: the request
  \<open>{"username": "testuser", "password": "Abcdefg1\ud800"}\<close> passes the generic field
  validation, \<open>validate_username\<close> and \<open>validate_password\<close>, and then
  \<open>password.encode("utf-8")\<close> raises in \<open>hash_password\<close>. Whatever the library, the
  salt, the clock and the store, the attempt is answered 500 with
  \<open>{"error": "Internal server error"}\<close> and nothing is stored, so the second attempt
  is answered in the same way.
\<close>

theorem create_user_surrogate_password:
  "fst (validate_username (str ''testuser'')) \<and>
   fst (validate_password ascii_db (str ''Abcdefg1'' @ [55296])) \<and>
   create_user ascii_db lib salt now st surrogate_password =
     ((JObj [(str ''error'', JStr (str ''Internal server error''))], 500), st)"
proof -
  have "hash_password lib salt (str ''Abcdefg1'' @ [55296]) = Inl UnicodeEncodeError"
    by (simp add: hash_password_def encode_utf8_surrogate surrogate_def)
  then show ?thesis
    using surrogate_checks(1,2,3) keys_distinct
    by (simp add: create_user_def create_user_try_def dict_get_def handle_exn_def
        error_response_def)
qed

section \<open>Login\<close>

text \<open>
  When the lookup of the username returns no row, or returns a row whose hash
  \<open>verify_password\<close> finds not to fit the password, \<open>login\<close> gives one and the same
  response: the body \<open>{"error": "Invalid credentials"}\<close> with status 401.
\<close>

lemma login_failures_identical:
  assumes "validate_input request_json [str ''username'', str ''password''] = Inr data"
    and "map_of data (str ''username'') = Some u"
    and "map_of data (str ''password'') = Some password"
    and "select_by_username st u = Inr None \<or>
         (\<exists>user. select_by_username st u = Inr (Some user) \<and>
            verify_password lib password (password_hash user) = Inr False)"
  shows "login lib st request_json =
     (JObj [(str ''error'', JStr (str ''Invalid credentials''))], 401)"
  using assms
  by (auto simp: login_def login_try_def dict_get_def get_db_connection_def
      error_response_def)

lemma login_failures_identical_demo:
  "login stub_bcrypt demo_store (credentials ''zz'' ''pw'') =
     (JObj [(str ''error'', JStr (str ''Invalid credentials''))], 401) \<and>
   login stub_bcrypt demo_store (credentials ''a!'' ''no'') =
     (JObj [(str ''error'', JStr (str ''Invalid credentials''))], 401)"
  using login_failures_identical [OF login_checks(1),
      of "str ''zz''" "str ''pw''" demo_store stub_bcrypt]
    login_failures_identical [OF login_checks(2),
      of "str ''a!''" "str ''no''" demo_store stub_bcrypt]
    login_checks(3,4,5) keys_distinct
  by simp

text \<open>
  Claim C3 says that every login request that passes the generic field validation and
  whose username matches no stored user is answered with the same 401 as a wrong
  password. The code does not: the request \<open>{"username": "\ud800abc", "password": "pw"}\<close>
  passes the generic field validation and its username matches no stored user, but the
  binding of the username in the lookup raises \<open>UnicodeEncodeError\<close>. Whatever the
  library and the store (so also on a store without that name), the request is
  answered 500 with \<open>{"error": "Internal server error"}\<close>, not 401 with
  \<open>{"error": "Invalid credentials"}\<close>.
\<close>

theorem login_surrogate_username:
  "validate_input surrogate_username [str ''username'', str ''password''] =
     Inr [(str ''username'', 55296 # str ''abc''), (str ''password'', str ''pw'')] \<and>
   login lib st surrogate_username =
     (JObj [(str ''error'', JStr (str ''Internal server error''))], 500)"
proof -
  have "select_by_username st (55296 # str ''abc'') = Inl UnicodeEncodeError"
    by (simp add: select_by_username_def encode_char_def surrogate_def)
  then show ?thesis
    using surrogate_checks(4) keys_distinct
    by (simp add: login_def login_try_def dict_get_def get_db_connection_def
        handle_exn_def error_response_def)
qed

text \<open>What \<open>check_field\<close> decides on a dict, in the words of the specification.\<close>

lemma check_field_ok:
  "generic_field_ok kvs k \<Longrightarrow> check_field (JObj kvs) k = Inr ()"
proof -
  assume ok: "generic_field_ok kvs k"
  then obtain s where s: "map_of kvs k = Some (JStr s)"
    and ne: "strip s \<noteq> []" and le: "length s \<le> 255"
    by (auto simp: generic_field_ok_def split: option.splits json.splits)
  from s have "k \<in> fst ` set kvs" by (metis map_of_eq_None_iff option.distinct(1))
  moreover from ne have "s \<noteq> []" using strip_Nil by auto
  ultimately show ?thesis using s ne le by (simp add: check_field_def)
qed

lemma check_field_refuses:
  "\<not> generic_field_ok kvs k \<Longrightarrow> \<exists>d. check_field (JObj kvs) k = Inl (BadRequest d)"
proof (cases "map_of kvs k")
  case None
  then have "k \<notin> fst ` set kvs" by (simp add: map_of_eq_None_iff)
  then show ?thesis by (simp add: check_field_def)
next
  case (Some v)
  assume bad: "\<not> generic_field_ok kvs k"
  from Some have "k \<in> fst ` set kvs" by (metis map_of_eq_None_iff option.distinct(1))
  with Some bad show ?thesis
    by (cases v) (auto simp: check_field_def generic_field_ok_def)
qed

lemma validate_input_refuses:
  assumes "\<not> (generic_field_ok kvs U \<and> generic_field_ok kvs P)"
  shows "\<exists>d. validate_input (JObj kvs) [U, P] = Inl (BadRequest d)"
proof (cases "generic_field_ok kvs U")
  case True
  with assms have "\<not> generic_field_ok kvs P" by simp
  then obtain d where "check_field (JObj kvs) P = Inl (BadRequest d)"
    using check_field_refuses by blast
  with True show ?thesis
    by (simp add: validate_input_def check_field_ok)
next
  case False
  then obtain d where "check_field (JObj kvs) U = Inl (BadRequest d)"
    using check_field_refuses by blast
  then show ?thesis by (simp add: validate_input_def)
qed

text \<open>
  Claim C10. \<open>login\<close> applies the generic field validation and nothing more. A request
  in which \<open>username\<close> or \<open>password\<close> is missing, not a string, empty after trimming or
  longer than 255 characters is answered 400 with the message of a \<open>BadRequest\<close>. For
  every other request the response is decided by the lookup of the trimmed username in
  the store and by \<open>verify_password\<close> on the trimmed password and the stored hash, and
  by nothing else: neither \<open>validate_username\<close> nor \<open>validate_password\<close> takes part, so
  names and passwords that registration would refuse reach the store and the hasher.
\<close>

theorem login_only_generic_validation:
  "if generic_field_ok kvs (str ''username'') \<and> generic_field_ok kvs (str ''password'')
   then
     login lib st (JObj kvs) =
       (case select_by_username st (strip (field_text kvs (str ''username''))) of
          Inl e \<Rightarrow> error_response (str ''Internal server error'') 500
        | Inr None \<Rightarrow> error_response (str ''Invalid credentials'') 401
        | Inr (Some user) \<Rightarrow>
            (case verify_password lib (strip (field_text kvs (str ''password'')))
                    (password_hash user) of
               Inl e \<Rightarrow> handle_exn (str ''Authentication failed'') e
             | Inr ok \<Rightarrow>
                 if ok then
                   (JObj [(str ''message'', JStr (str ''Login successful'')),
                          (str ''user_id'', JInt (row_id user)),
                          (str ''username'', JStr (username user))], 200)
                 else error_response (str ''Invalid credentials'') 401))
   else \<exists>d. login lib st (JObj kvs) = error_response (bad_request_str d) 400"
proof (cases "generic_field_ok kvs (str ''username'') \<and>
    generic_field_ok kvs (str ''password'')")
  case True
  then obtain u p where u: "map_of kvs (str ''username'') = Some (JStr u)"
    and p: "map_of kvs (str ''password'') = Some (JStr p)"
    and ok: "strip u \<noteq> []" "strip p \<noteq> []" "length u \<le> 255" "length p \<le> 255"
    by (auto simp: generic_field_ok_def split: option.splits json.splits)
  have v: "validate_input (JObj kvs) [str ''username'', str ''password''] =
      Inr [(str ''username'', strip u), (str ''password'', strip p)]"
    using u p ok by (rule validate_input_ok)
  have "select_by_username st (strip u) = Inl e \<Longrightarrow> e = UnicodeEncodeError" for e
    by (rule select_error)
  then show ?thesis
    using True v u p keys_distinct
    by (auto simp: login_def login_try_def dict_get_def get_db_connection_def
        field_text_def handle_exn_def split: option.splits sum.splits)
next
  case False
  then obtain d where
    "validate_input (JObj kvs) [str ''username'', str ''password''] = Inl (BadRequest d)"
    using validate_input_refuses by blast
  with False show ?thesis
    by (auto simp: login_def login_try_def handle_exn_def)
qed

theorem login_only_generic_validation_witness:
  "login stub_bcrypt demo_store (credentials ''a!'' ''pw'') =
     (JObj [(str ''message'', JStr (str ''Login successful'')),
            (str ''user_id'', JInt 1),
            (str ''username'', JStr (str ''a!''))], 200) \<and>
   \<not> fst (validate_username (str ''a!'')) \<and>
   \<not> fst (validate_password ascii_db (str ''pw'')) \<and>
   login stub_bcrypt demo_store (credentials ''a!'' '' '') =
     (JObj [(str ''error'',
             JStr (str ''400 Bad Request: Empty value for password''))], 400)"
  using login_only_generic_validation [of
      "[(str ''username'', JStr (str ''a!'')), (str ''password'', JStr (str ''pw''))]"
      stub_bcrypt demo_store]
    login_only_generic_validation [of
      "[(str ''username'', JStr (str ''a!'')), (str ''password'', JStr (str '' ''))]"
      stub_bcrypt demo_store]
  by (simp add: eval_defs generic_field_ok_def field_text_def)

section \<open>Listing\<close>

text \<open>
  Claim C9. For every state of the store, \<open>get_users\<close> answers 200 with all stored
  users, ordered by \<open>created_at\<close> descending (the most recently created first; the empty
  list when there are no users), and each record holds exactly the keys \<open>id\<close>,
  \<open>username\<close> and \<open>created_at\<close>, so never \<open>password_hash\<close>.
\<close>

theorem get_users_sorted:
  "(\<exists>users. get_users st = (JObj [(str ''users'', JArr (map user_json users))], 200) \<and>
      mset users = mset st \<and>
      sorted_wrt (\<lambda>a b. created_at b \<le> created_at a) users) \<and>
   get_users [] = (JObj [(str ''users'', JArr [])], 200) \<and>
   dict_keys (user_json user) = [str ''id'', str ''username'', str ''created_at'']"
proof -
  have "sorted (map created_at (sort_key created_at (rev st)))"
    by (rule sorted_sort_key)
  then have "sorted_wrt (\<lambda>a b. created_at a \<le> created_at b)
      (sort_key created_at (rev st))"
    by (simp add: sorted_map)
  then have "sorted_wrt (\<lambda>a b. created_at b \<le> created_at a) (select_all_desc st)"
    by (simp add: select_all_desc_def sorted_wrt_rev)
  moreover have "mset (select_all_desc st) = mset st"
    by (simp add: select_all_desc_def)
  moreover have "get_users st =
      (JObj [(str ''users'', JArr (map user_json (select_all_desc st)))], 200)"
    by (simp add: get_users_def get_db_connection_def)
  moreover have "get_users [] = (JObj [(str ''users'', JArr [])], 200)"
    by (simp add: get_users_def get_db_connection_def select_all_desc_def)
  ultimately show ?thesis by (auto simp: user_json_def)
qed

theorem get_users_sorted_witness:
  "get_users two_users =
     (JObj [(str ''users'',
        JArr [JObj [(str ''id'', JInt 2), (str ''username'', JStr (str ''bob'')),
                    (str ''created_at'', JStr (str ''2024-01-01T00:00:00.000001''))],
              JObj [(str ''id'', JInt 1), (str ''username'', JStr (str ''ann'')),
                    (str ''created_at'', JStr (str ''2024-01-01T00:00:00''))]])], 200)"
  using get_users_sorted [of two_users]
  by (simp add: get_users_def get_db_connection_def select_all_desc_def two_users_def
      user_json_def str_def)

section \<open>Registrations of one username side by side\<close>

text \<open>
  Run alone, the three statements of a registration are the \<open>with\<close> block of
  \<open>create_user\<close> and the handlers around it: the check is a \<open>SELECT\<close> of its own, before
  the \<open>INSERT\<close>.
\<close>

lemma create_user_db_steps:
  "(case db_step st False (AtSelect u h now) of
      (a, st1) \<Rightarrow> (case db_step st1 False a of (a', st2) \<Rightarrow> db_step st2 False a')) =
     (case get_db_connection (create_user_db now st u h) of
        Inl e \<Rightarrow> (Finished (handle_exn (str ''User creation failed'') e), st)
      | Inr (r, st') \<Rightarrow> (Finished r, st'))"
  by (auto simp: create_user_db_def get_db_connection_def db_insert_def
      select_by_username_def split: option.splits sum.splits exn.splits)















end
